theory Spec2Isabelle
  imports Complex_Main
begin

section \<open>Block registry and cube-face geometry of the voxel renderer\<close>

text \<open>
  A shallow embedding of \<^verbatim>\<open>src/assignment_package/src/scene/block.cpp\<close>.
  The static members of class \<^verbatim>\<open>Block\<close> become one record that every operation
  receives and, when it writes, returns.

  The components of \<^verbatim>\<open>glm::vec2\<close> are binary32 floats, and the source adds them: they
  are modelled as binary32 values with the rounding addition of IEEE 754. The components
  of \<^verbatim>\<open>glm::vec4\<close> only ever hold the literals 0, 1 and -1, on which no arithmetic is
  done; these are binary32 values and are modelled by the real numbers they denote.
\<close>

subsection \<open>binary32\<close>

text \<open>
  The values of an IEEE 754 binary32 float, which is what \<^verbatim>\<open>float\<close> is on the platforms
  the renderer builds for; sums and quotients are evaluated in binary32 under the
  default rounding, to nearest with ties to even. Every finite binary32 value is a whole
  number of units of \<open>2^-149\<close>, the smallest subnormal: \<open>Finite n\<close> is the value
  \<open>n * 2^-149\<close>, and \<open>Finite 0\<close> is the positive zero. A value \<open>Finite n\<close> is a binary32
  value when \<open>n\<close> has at most 24 significant bits and is below \<open>2^128\<close>, that is,
  \<open>2^277\<close> units (\<open>binary32_units\<close> below). The payload of a NaN is not modelled.
\<close>

datatype float32 = Finite int | MinusZero | PlusInf | MinusInf | NaN

text \<open>The number of bits of a positive integer: \<open>bits n = k\<close> when \<open>2^(k-1) \<le> n < 2^k\<close>.\<close>

function bits :: "int \<Rightarrow> nat" where
  "bits n = (if n \<le> 0 then 0 else Suc (bits (n div 2)))"
  by pat_completeness auto
termination
  by (relation "measure nat") auto

declare bits.simps [simp del]

text \<open>The integer nearest to \<open>p / q\<close> for \<open>q > 0\<close>, the even one of the two at a tie.\<close>

definition rne :: "int \<Rightarrow> int \<Rightarrow> int" where
  "rne p q =
    (let f = p div q; r = p mod q in
     if 2 * r < q then f
     else if q < 2 * r then f + 1
     else if even f then f else f + 1)"

text \<open>
  Rounding the positive number of units \<open>p / q\<close> to 24 significant bits: a number with
  \<open>k > 24\<close> bits before the point is rounded to a multiple of \<open>2^(k-24)\<close>, a smaller one
  (the subnormals and the lowest normal binade) to a whole number of units. The
  subtraction is the truncating one of the naturals.
\<close>

definition round_units :: "int \<Rightarrow> int \<Rightarrow> int" where
  "round_units p q = (let shift = bits (p div q) - 24 in rne p (q * 2 ^ shift) * 2 ^ shift)"

text \<open>
  The binary32 result of an operation whose exact result is \<open>p / q\<close> units (\<open>q > 0\<close>):
  round to nearest, ties to even; a result that rounds to \<open>2^128\<close> or beyond overflows to
  an infinity, a negative one that rounds to zero is the negative zero.
\<close>

definition round32 :: "int \<Rightarrow> int \<Rightarrow> float32" where
  "round32 p q =
    (if p = 0 then Finite 0
     else if 0 < p then
       (let n = round_units p q in if 2 ^ 277 \<le> n then PlusInf else Finite n)
     else
       (let n = round_units (- p) q in
        if 2 ^ 277 \<le> n then MinusInf else if n = 0 then MinusZero else Finite (- n)))"

text \<open>
  Addition. A NaN operand or the sum of opposite infinities gives NaN; the sum of two
  negative zeros is the negative zero, every other exact zero sum the positive one.
\<close>

fun fadd :: "float32 \<Rightarrow> float32 \<Rightarrow> float32" where
  "fadd NaN y = NaN"
| "fadd x NaN = NaN"
| "fadd PlusInf MinusInf = NaN"
| "fadd MinusInf PlusInf = NaN"
| "fadd PlusInf y = PlusInf"
| "fadd x PlusInf = PlusInf"
| "fadd MinusInf y = MinusInf"
| "fadd x MinusInf = MinusInf"
| "fadd MinusZero y = y"
| "fadd x MinusZero = x"
| "fadd (Finite a) (Finite b) = round32 (a + b) 1"

fun fneg :: "float32 \<Rightarrow> float32" where
  "fneg (Finite n) = (if n = 0 then MinusZero else Finite (- n))"
| "fneg MinusZero = Finite 0"
| "fneg PlusInf = MinusInf"
| "fneg MinusInf = PlusInf"
| "fneg NaN = NaN"

fun negative :: "float32 \<Rightarrow> bool" where
  "negative (Finite n) = (n < 0)"
| "negative MinusZero = True"
| "negative MinusInf = True"
| "negative PlusInf = False"
| "negative NaN = False"

fun is_zero :: "float32 \<Rightarrow> bool" where
  "is_zero (Finite n) = (n = 0)"
| "is_zero MinusZero = True"
| "is_zero x = False"

fun is_inf :: "float32 \<Rightarrow> bool" where
  "is_inf PlusInf = True"
| "is_inf MinusInf = True"
| "is_inf x = False"

fun units :: "float32 \<Rightarrow> int" where
  "units (Finite n) = n"
| "units x = 0"

text \<open>
  Division. NaN for a NaN operand, for two infinities and for two zeros; an infinity
  or a zero of the sign of the quotient where the dividend is infinite or the divisor
  zero, and where the dividend is zero or the divisor infinite; the rounded quotient
  otherwise.
\<close>

definition fdiv :: "float32 \<Rightarrow> float32 \<Rightarrow> float32" where
  "fdiv a b =
    (if a = NaN \<or> b = NaN then NaN
     else if is_inf a \<and> is_inf b then NaN
     else if is_zero a \<and> is_zero b then NaN
     else if is_inf a \<or> is_zero b then
       (if negative a = negative b then PlusInf else MinusInf)
     else if is_zero a \<or> is_inf b then
       (if negative a = negative b then Finite 0 else MinusZero)
     else if 0 < units b then round32 (units a * 2 ^ 149) (units b)
     else round32 (- units a * 2 ^ 149) (- units b))"

text \<open>The literals \<open>0\<close> and \<open>1\<close> and the operators \<open>-\<close>, \<open>+\<close> and \<open>/\<close> of \<^verbatim>\<open>float\<close>.\<close>

instantiation float32 :: "{zero, one, uminus, plus, inverse}"
begin

definition zero_float32 :: "float32" where
  "zero_float32 = Finite 0"

definition one_float32 :: "float32" where
  "one_float32 = Finite (2 ^ 149)"

definition uminus_float32 :: "float32 \<Rightarrow> float32" where
  "uminus_float32 a = fneg a"

definition plus_float32 :: "float32 \<Rightarrow> float32 \<Rightarrow> float32" where
  "plus_float32 a b = fadd a b"

definition divide_float32 :: "float32 \<Rightarrow> float32 \<Rightarrow> float32" where
  "divide_float32 a b = fdiv a b"

definition inverse_float32 :: "float32 \<Rightarrow> float32" where
  "inverse_float32 a = fdiv (Finite (2 ^ 149)) a"

instance ..

end

text \<open>
  The binary32 value nearest to the fraction \<open>p / q\<close> (\<open>q > 0\<close>), which is what a literal
  or a conversion to \<^verbatim>\<open>float\<close> yields, and the one nearest to an integer.
\<close>

definition nearest32 :: "int \<Rightarrow> int \<Rightarrow> float32" where
  "nearest32 p q = round32 (p * 2 ^ 149) q"

definition float32_of_int :: "int \<Rightarrow> float32" where
  "float32_of_int n = nearest32 n 1"

text \<open>
  The real number a finite value denotes; both zeros denote 0. An infinity and NaN
  denote no number: \<open>valof\<close> is 0 there and is only used under \<open>is_finite\<close>.
  \<open>binary32_units n\<close> says that \<open>n\<close> units is a binary32 value: below \<open>2^277\<close> units in
  magnitude, and a multiple of \<open>2^(k-24)\<close> when it has \<open>k > 24\<close> bits.
\<close>

fun is_finite :: "float32 \<Rightarrow> bool" where
  "is_finite (Finite n) = True"
| "is_finite MinusZero = True"
| "is_finite x = False"

definition valof :: "float32 \<Rightarrow> real" where
  "valof a = real_of_int (units a) / 2 ^ 149"

definition binary32_units :: "int \<Rightarrow> bool" where
  "binary32_units n \<longleftrightarrow> \<bar>n\<bar> < 2 ^ 277 \<and> 2 ^ (bits \<bar>n\<bar> - 24) dvd n"

subsection \<open>glm vectors\<close>

datatype vec2 = vec2 (vec2_x: float32) (vec2_y: float32)

datatype vec3 = vec3 (vec3_x: real) (vec3_y: real) (vec3_z: real)

datatype vec4 = vec4 (vec4_x: real) (vec4_y: real) (vec4_z: real) (vec4_w: real)

text \<open>\<^verbatim>\<open>glm::vec2(s)\<close> with one scalar sets both components to it.\<close>

definition vec2s :: "float32 \<Rightarrow> vec2" where
  "vec2s s = vec2 s s"

text \<open>
  \<^verbatim>\<open>operator+\<close> of \<^verbatim>\<open>glm::vec2\<close> adds componentwise, each component by the binary32
  addition.
\<close>

instantiation vec2 :: plus
begin

definition plus_vec2 :: "vec2 \<Rightarrow> vec2 \<Rightarrow> vec2" where
  "plus_vec2 a b = vec2 (vec2_x a + vec2_x b) (vec2_y a + vec2_y b)"

instance ..

end

subsection \<open>The types of block.h\<close>

text \<open>
  Modelled from the spec: the header \<^verbatim>\<open>block.h\<close>, which declares \<^verbatim>\<open>BlockType\<close>,
  \<^verbatim>\<open>Direction\<close>, \<^verbatim>\<open>VertexData\<close> and \<^verbatim>\<open>BlockFace\<close>, is not among the sources.
  The block types are the eleven the specification lists (the ten keys of
  \<^verbatim>\<open>blockTypeMap\<close> and \<^verbatim>\<open>EMPTY\<close>); the directions are the six of the comment above
  \<^verbatim>\<open>createBlockFaces\<close>, in its order. A vertex is a position and a UV coordinate, a face
  is a direction tag, a normal and four vertices: the arguments of the two constructors
  as \<^verbatim>\<open>createBlockFaces\<close> calls them.
\<close>

datatype BlockType =
  GRASS | DIRT | STONE | WATER | SNOW | LAVA | BEDROCK | ICE | WOOD | LEAF | EMPTY

datatype Direction = XPOS | XNEG | YPOS | YNEG | ZPOS | ZNEG

datatype VertexData = VertexData (pos: vec4) (uv: vec2)

datatype BlockFace =
  BlockFace (direction: Direction) (normal: vec4)
    (vtx1: VertexData) (vtx2: VertexData) (vtx3: VertexData) (vtx4: VertexData)

text \<open>
  \<^verbatim>\<open>std::array<T, 6>\<close>: exactly six elements, whatever the caller does. \<open>elems\<close> lists
  them by index, and \<open>at6 a i\<close> is \<^verbatim>\<open>a[i]\<close>; the source only ever indexes with the
  literals 0 to 5.
\<close>

datatype 'a array6 = Array6 'a 'a 'a 'a 'a 'a

fun elems :: "'a array6 \<Rightarrow> 'a list" where
  "elems (Array6 a b c d e f) = [a, b, c, d, e, f]"

definition at6 :: "'a array6 \<Rightarrow> nat \<Rightarrow> 'a" where
  "at6 a i = elems a ! i"

definition vertices :: "BlockFace \<Rightarrow> VertexData list" where
  "vertices f = [vtx1 f, vtx2 f, vtx3 f, vtx4 f]"

subsection \<open>createBlockFaces\<close>

definition createBlockFaces :: "vec2 array6 \<Rightarrow> BlockFace array6" where
  "createBlockFaces uvOffsets =
    (let length' = 1 / float32_of_int 16 in
     Array6
      (BlockFace XPOS (vec4 1 0 0 0)
        (VertexData (vec4 1 0 1 1) (at6 uvOffsets 0))
        (VertexData (vec4 1 0 0 1) (at6 uvOffsets 0 + vec2 length' 0))
        (VertexData (vec4 1 1 0 1) (at6 uvOffsets 0 + vec2 length' length'))
        (VertexData (vec4 1 1 1 1) (at6 uvOffsets 0 + vec2 0 length')))
      (BlockFace XNEG (vec4 (- 1) 0 0 0)
        (VertexData (vec4 0 0 0 1) (at6 uvOffsets 1))
        (VertexData (vec4 0 0 1 1) (at6 uvOffsets 1 + vec2 length' 0))
        (VertexData (vec4 0 1 1 1) (at6 uvOffsets 1 + vec2 length' length'))
        (VertexData (vec4 0 1 0 1) (at6 uvOffsets 1 + vec2 0 length')))
      (BlockFace YPOS (vec4 0 1 0 0)
        (VertexData (vec4 0 1 1 1) (at6 uvOffsets 2))
        (VertexData (vec4 1 1 1 1) (at6 uvOffsets 2 + vec2 length' 0))
        (VertexData (vec4 1 1 0 1) (at6 uvOffsets 2 + vec2 length' length'))
        (VertexData (vec4 0 1 0 1) (at6 uvOffsets 2 + vec2 0 length')))
      (BlockFace YNEG (vec4 0 (- 1) 0 0)
        (VertexData (vec4 0 0 0 1) (at6 uvOffsets 3))
        (VertexData (vec4 1 0 0 1) (at6 uvOffsets 3 + vec2 length' 0))
        (VertexData (vec4 1 0 1 1) (at6 uvOffsets 3 + vec2 length' length'))
        (VertexData (vec4 0 0 1 1) (at6 uvOffsets 3 + vec2 0 length')))
      (BlockFace ZPOS (vec4 0 0 1 0)
        (VertexData (vec4 0 0 1 1) (at6 uvOffsets 4))
        (VertexData (vec4 1 0 1 1) (at6 uvOffsets 4 + vec2 length' 0))
        (VertexData (vec4 1 1 1 1) (at6 uvOffsets 4 + vec2 length' length'))
        (VertexData (vec4 0 1 1 1) (at6 uvOffsets 4 + vec2 0 length')))
      (BlockFace ZNEG (vec4 0 0 (- 1) 0)
        (VertexData (vec4 1 0 0 1) (at6 uvOffsets 5))
        (VertexData (vec4 0 0 0 1) (at6 uvOffsets 5 + vec2 length' 0))
        (VertexData (vec4 0 1 0 1) (at6 uvOffsets 5 + vec2 length' length'))
        (VertexData (vec4 1 1 0 1) (at6 uvOffsets 5 + vec2 0 length'))))"

subsection \<open>The static members of Block\<close>

record Block =
  BlockCollection :: "BlockType \<rightharpoonup> BlockFace array6"
  blockTypeMap :: "string \<rightharpoonup> BlockType"
  transparentBlockTypes :: "BlockType set"
  animatableBlockTypes :: "BlockType set"
  liquidBlockTypes :: "BlockType set"

text \<open>
  The static initialisers at the end of \<^verbatim>\<open>block.cpp\<close>. \<^verbatim>\<open>BlockCollection\<close> is
  initialised from \<^verbatim>\<open>{ {} }\<close>, whose content depends on the default constructor of
  \<^verbatim>\<open>BlockFace\<close> and on the first enumerator of \<^verbatim>\<open>BlockType\<close>, both declared in the
  absent header: the initial collection \<open>bc\<close> is a parameter.
\<close>

definition Block_init :: "(BlockType \<rightharpoonup> BlockFace array6) \<Rightarrow> Block" where
  "Block_init bc =
    \<lparr> BlockCollection = bc,
      blockTypeMap = map_of
        [(''GRASS'', GRASS), (''DIRT'', DIRT), (''STONE'', STONE), (''WATER'', WATER),
         (''SNOW'', SNOW), (''LAVA'', LAVA), (''BEDROCK'', BEDROCK), (''ICE'', ICE),
         (''WOOD'', WOOD), (''LEAF'', LEAF)],
      transparentBlockTypes = {EMPTY, WATER, ICE},
      animatableBlockTypes = {WATER, LAVA},
      liquidBlockTypes = {WATER, LAVA} \<rparr>"

text \<open>\<^verbatim>\<open>set.find(type) == set.end()\<close> holds when \<^verbatim>\<open>type\<close> is not a member.\<close>

definition isOpaque :: "Block \<Rightarrow> BlockType \<Rightarrow> bool" where
  "isOpaque s type \<longleftrightarrow> type \<notin> transparentBlockTypes s"

definition isTransparent :: "Block \<Rightarrow> BlockType \<Rightarrow> bool" where
  "isTransparent s type \<longleftrightarrow> type \<in> transparentBlockTypes s"

definition isLiquid :: "Block \<Rightarrow> BlockType \<Rightarrow> bool" where
  "isLiquid s type \<longleftrightarrow> type \<in> liquidBlockTypes s"

definition isAnimatable :: "Block \<Rightarrow> BlockType \<Rightarrow> bool" where
  "isAnimatable s type \<longleftrightarrow> type \<in> animatableBlockTypes s"

definition getAnimatableFlag :: "Block \<Rightarrow> BlockType \<Rightarrow> vec2" where
  "getAnimatableFlag s type = (if isAnimatable s type then vec2s 1 else vec2s (- 1))"

definition isEmpty :: "BlockType \<Rightarrow> bool" where
  "isEmpty type \<longleftrightarrow> type = EMPTY"

text \<open>
  \<^verbatim>\<open>BlockCollection[blockType] = createBlockFaces(uv)\<close>: the entry is created when
  absent and overwritten otherwise.
\<close>

definition insertNewUVCoord :: "BlockType \<Rightarrow> vec2 array6 \<Rightarrow> Block \<Rightarrow> Block" where
  "insertNewUVCoord blockType uvs s =
    s\<lparr>BlockCollection := (BlockCollection s)(blockType \<mapsto> createBlockFaces uvs)\<rparr>"

text \<open>
  \<^verbatim>\<open>insertNewUVCoord\<close> is the only writer of the static members in the source
  (\<^verbatim>\<open>loadUVCoordFromText\<close> calls it once for each block it has read six coordinates
  for). The registry at any moment of a run is therefore the initial one after a
  sequence of such calls.
\<close>

fun insertAll :: "(BlockType \<times> vec2 array6) list \<Rightarrow> Block \<Rightarrow> Block" where
  "insertAll [] s = s"
| "insertAll ((blockType, uvs) # calls) s = insertAll calls (insertNewUVCoord blockType uvs s)"

text \<open>
  The overload without arguments (lines 59 to 64): six times \<^verbatim>\<open>glm::vec2(0.f)\<close>.
\<close>

definition createBlockFaces_default :: "BlockFace array6" where
  "createBlockFaces_default =
    createBlockFaces (Array6 (vec2s 0) (vec2s 0) (vec2s 0) (vec2s 0) (vec2s 0) (vec2s 0))"

subsection \<open>Geometric notions of the specification\<close>

text \<open>
  The properties speak of the plane a face lies in and of the winding of its vertices.
  These notions are not computed by the source; they are defined here in the words of
  the specification: the spatial part of a homogeneous position, the difference and the
  cross product of two vectors, the coordinate along the axis of a direction, the value
  that coordinate has on the named side of the unit cube, and the outward unit normal.
\<close>

definition xyz :: "vec4 \<Rightarrow> vec3" where
  "xyz v = vec3 (vec4_x v) (vec4_y v) (vec4_z v)"

definition sub3 :: "vec3 \<Rightarrow> vec3 \<Rightarrow> vec3" where
  "sub3 a b = vec3 (vec3_x a - vec3_x b) (vec3_y a - vec3_y b) (vec3_z a - vec3_z b)"

definition cross :: "vec3 \<Rightarrow> vec3 \<Rightarrow> vec3" where
  "cross a b =
    vec3 (vec3_y a * vec3_z b - vec3_z a * vec3_y b)
         (vec3_z a * vec3_x b - vec3_x a * vec3_z b)
         (vec3_x a * vec3_y b - vec3_y a * vec3_x b)"

text \<open>\<open>turn a b c\<close> is the cross product \<open>(b - a) \<times> (c - b)\<close> of two consecutive edges.\<close>

definition turn :: "VertexData \<Rightarrow> VertexData \<Rightarrow> VertexData \<Rightarrow> vec3" where
  "turn a b c = cross (sub3 (xyz (pos b)) (xyz (pos a))) (sub3 (xyz (pos c)) (xyz (pos b)))"

definition unit_coords :: "vec4 \<Rightarrow> bool" where
  "unit_coords v \<longleftrightarrow> vec4_x v \<in> {0, 1} \<and> vec4_y v \<in> {0, 1} \<and> vec4_z v \<in> {0, 1}"

fun axis_coord :: "Direction \<Rightarrow> vec4 \<Rightarrow> real" where
  "axis_coord XPOS v = vec4_x v"
| "axis_coord XNEG v = vec4_x v"
| "axis_coord YPOS v = vec4_y v"
| "axis_coord YNEG v = vec4_y v"
| "axis_coord ZPOS v = vec4_z v"
| "axis_coord ZNEG v = vec4_z v"

fun plane_coord :: "Direction \<Rightarrow> real" where
  "plane_coord XPOS = 1"
| "plane_coord XNEG = 0"
| "plane_coord YPOS = 1"
| "plane_coord YNEG = 0"
| "plane_coord ZPOS = 1"
| "plane_coord ZNEG = 0"

fun outward_normal :: "Direction \<Rightarrow> vec4" where
  "outward_normal XPOS = vec4 1 0 0 0"
| "outward_normal XNEG = vec4 (- 1) 0 0 0"
| "outward_normal YPOS = vec4 0 1 0 0"
| "outward_normal YNEG = vec4 0 (- 1) 0 0"
| "outward_normal ZPOS = vec4 0 0 1 0"
| "outward_normal ZNEG = vec4 0 0 (- 1) 0"

subsection \<open>Values of UV coordinates\<close>

text \<open>
  The specification speaks of the sum of an offset and \<open>1/16\<close> as numbers. \<open>val2\<close> is
  the pair of real numbers a vector denotes, and \<open>offset_by a du dv\<close> is that pair moved
  by \<open>(du, dv)\<close>, added as real numbers. \<open>exact16 c\<close> says that \<open>c\<close> is a finite
  binary32 value and that \<open>c + 1/16\<close> is a binary32 value too, so that the addition does
  not round.
\<close>

definition val2 :: "vec2 \<Rightarrow> real \<times> real" where
  "val2 a = (valof (vec2_x a), valof (vec2_y a))"

definition offset_by :: "vec2 \<Rightarrow> real \<Rightarrow> real \<Rightarrow> real \<times> real" where
  "offset_by a du dv = (valof (vec2_x a) + du, valof (vec2_y a) + dv)"

definition exact16 :: "float32 \<Rightarrow> bool" where
  "exact16 c \<longleftrightarrow>
    is_finite c \<and> binary32_units (units c) \<and> binary32_units (units c + 2 ^ 145)"

subsection \<open>Sample inputs\<close>

text \<open>
  Six offsets on the 16 by 16 atlas grid; the offset \<open>(0.1f, 0.1f)\<close> six times;
  the offset \<open>(2^24, 2^24)\<close> six times; and a registry that already holds an entry for
  \<open>DIRT\<close>.
\<close>

definition sample_uv :: "vec2 array6" where
  "sample_uv =
    Array6 (vec2 (nearest32 3 16) (nearest32 15 16)) (vec2 (nearest32 3 16) (nearest32 15 16))
           (vec2 (nearest32 8 16) (nearest32 13 16)) (vec2 (nearest32 2 16) (nearest32 15 16))
           (vec2 (nearest32 4 16) (nearest32 2 16)) (vec2 0 (nearest32 1 2))"

definition tenth_uv :: "vec2 array6" where
  "tenth_uv =
    (let t = vec2 (nearest32 1 10) (nearest32 1 10) in Array6 t t t t t t)"

definition far_uv :: "vec2 array6" where
  "far_uv =
    (let t = vec2 (float32_of_int 16777216) (float32_of_int 16777216) in Array6 t t t t t t)"

definition sample_registry :: "Block" where
  "sample_registry = insertNewUVCoord DIRT sample_uv (Block_init Map.empty)"

section \<open>Properties\<close>

subsection \<open>Helper facts\<close>

lemma createBlockFaces_directions:
  "map direction (elems (createBlockFaces uvOffsets)) = [XPOS, XNEG, YPOS, YNEG, ZPOS, ZNEG]"
  by (simp add: createBlockFaces_def Let_def)

lemma index_below_6:
  "i < (6::nat) \<Longrightarrow> i = 0 \<or> i = 1 \<or> i = 2 \<or> i = 3 \<or> i = 4 \<or> i = 5"
  by arith

text \<open>A sequence of insertions leaves the three classification sets as they were.\<close>

lemma insertAll_sets:
  "transparentBlockTypes (insertAll calls s) = transparentBlockTypes s \<and>
   animatableBlockTypes (insertAll calls s) = animatableBlockTypes s \<and>
   liquidBlockTypes (insertAll calls s) = liquidBlockTypes s"
  by (induction calls s rule: insertAll.induct) (simp_all add: insertNewUVCoord_def)

subsection \<open>binary32 arithmetic\<close>

lemmas eval32 =
  nearest32_def float32_of_int_def round32_def round_units_def rne_def Let_def
  zero_float32_def one_float32_def uminus_float32_def plus_float32_def divide_float32_def
  fdiv_def bits.simps

text \<open>
  The operations at known values: \<open>1.f / 16.f\<close> is \<open>2^-4\<close>; \<open>0.1f\<close> is
  \<open>13421773 * 2^-27\<close>; \<open>0.1f + 0.0625f\<close> is a tie between two neighbours and goes to the
  even one, \<open>5452595 * 2^-25\<close>; \<open>2^24 + 0.0625f\<close> is \<open>2^24\<close>; the largest finite value
  plus half a unit of its last place overflows; opposite infinities add up to NaN; and
  the sum of the two zeros is the positive zero.
\<close>

lemma sixteenth: "1 / float32_of_int 16 = Finite (2 ^ 145)"
  by (simp add: eval32)

lemma tenth: "nearest32 1 10 = Finite (13421773 * 2 ^ 122)"
  by (simp add: eval32)

lemma tenth_plus_sixteenth:
  "nearest32 1 10 + 1 / float32_of_int 16 = Finite (5452595 * 2 ^ 124)"
  by (simp add: eval32)

lemma tenth_plus_zero: "nearest32 1 10 + 0 = nearest32 1 10"
  by (simp add: eval32)

lemma far_plus_sixteenth:
  "float32_of_int 16777216 + 1 / float32_of_int 16 = float32_of_int 16777216"
  by (simp add: eval32)

lemma largest_plus_half_ulp:
  "Finite ((2 ^ 24 - 1) * 2 ^ 253) + Finite (2 ^ 252) = PlusInf"
  by (simp add: eval32)

lemma special_sums:
  "PlusInf + MinusInf = NaN" "NaN + a = NaN" "PlusInf + Finite n = PlusInf"
  "MinusZero + (0::float32) = 0" "MinusZero + MinusZero = MinusZero"
  "(1::float32) + - 1 = 0"
  by (simp_all add: eval32)

lemma special_quotients:
  "(1::float32) / 0 = PlusInf" "- (1::float32) / 0 = MinusInf" "(0::float32) / 0 = NaN"
  "PlusInf / PlusInf = NaN" "(1::float32) / MinusInf = MinusZero"
  "1 / float32_of_int 3 = Finite (11184811 * 2 ^ 124)"
  by (simp_all add: eval32)

text \<open>
  The rounding is the one of IEEE 754. \<open>bits\<close> is the bit length; the integer \<open>rne\<close>
  returns is within a half of the fraction, and even at a tie; \<open>round_units\<close> returns a
  multiple of the quantum \<open>2^shift\<close> of the binade of the fraction, at most \<open>2^24\<close> of
  them, within half a quantum of the fraction.
\<close>

lemma rne_nearest:
  assumes "0 < q"
  shows "2 * \<bar>p - q * rne p q\<bar> \<le> q"
proof -
  have m: "p = q * (p div q) + p mod q" by simp
  have r: "0 \<le> p mod q" "p mod q < q" using assms by simp_all
  have e: "p - q * (p div q) = p mod q"
    by (simp add: minus_mult_div_eq_mod)
  have e1: "p - q * (p div q + 1) = p mod q - q"
    using e by (simp add: algebra_simps)
  show ?thesis
    unfolding rne_def Let_def using r e e1 by auto
qed

lemma rne_tie:
  assumes "0 < q" and "2 * (p mod q) = q"
  shows "even (rne p q)"
  using assms by (auto simp add: rne_def Let_def)

lemma bits_bounds:
  "0 < n \<Longrightarrow> 2 ^ (bits n - 1) \<le> n \<and> n < 2 ^ bits n"
proof (induction n rule: bits.induct)
  case (1 n)
  show ?case
  proof (cases "n div 2 \<le> 0")
    case True
    with 1 have "n = 1" by linarith
    then show ?thesis by (simp add: bits.simps)
  next
    case False
    with 1 have ih: "2 ^ (bits (n div 2) - 1) \<le> n div 2 \<and> n div 2 < 2 ^ bits (n div 2)"
      by simp
    from False have pos: "0 < bits (n div 2)" by (simp add: bits.simps)
    have b: "bits n = Suc (bits (n div 2))" using 1 by (simp add: bits.simps)
    from pos obtain k where k: "bits (n div 2) = Suc k" by (cases "bits (n div 2)") auto
    from ih k have "2 * 2 ^ k \<le> n" "n < 2 * 2 ^ Suc k" by simp_all linarith+
    with b k show ?thesis by simp
  qed
qed

lemma round_units_nearest:
  assumes "0 < q"
  shows "2 * \<bar>p - q * round_units p q\<bar> \<le> q * 2 ^ (bits (p div q) - 24)"
  using rne_nearest [of "q * 2 ^ (bits (p div q) - 24)" p] assms
  by (simp add: round_units_def Let_def mult_ac)

lemma rne_le: "0 < q \<Longrightarrow> rne p q \<le> p div q + 1"
  by (simp add: rne_def Let_def)

lemma below_bits: "0 \<le> n \<Longrightarrow> n < 2 ^ bits n"
  using bits_bounds [of n] by (cases "n = 0") (simp_all add: bits.simps)

lemma less_mult_of_div_less:
  fixes p q k :: int
  assumes "0 < q" and "p div q < k"
  shows "p < q * k"
proof -
  have a: "q * (p div q) + p mod q = p" by simp
  have b: "p mod q < q" using assms by simp
  from assms have "p div q + 1 \<le> k" by simp
  with assms have d: "q * (p div q + 1) \<le> q * k"
    by (intro mult_left_mono) simp_all
  have e: "q * (p div q + 1) = q * (p div q) + q" by (simp add: algebra_simps)
  from a b d e show ?thesis by linarith
qed

lemma div_less_of_less_mult:
  fixes p q k :: int
  assumes "0 < q" and "p < q * k"
  shows "p div q < k"
proof (rule ccontr)
  assume "\<not> p div q < k"
  with assms have d: "q * k \<le> q * (p div q)"
    by (intro mult_left_mono) simp_all
  have a: "q * (p div q) + p mod q = p" by simp
  have b: "0 \<le> p mod q" using assms by simp
  from a b d assms show False by linarith
qed

lemma round_units_significand:
  assumes "0 \<le> p" and "0 < q"
  shows "rne p (q * 2 ^ (bits (p div q) - 24)) \<le> 2 ^ 24"
proof -
  let ?b = "bits (p div q)"
  let ?Q = "q * 2 ^ (?b - 24)"
  have Q: "0 < ?Q" using assms by simp
  from assms have "0 \<le> p div q" by (simp add: pos_imp_zdiv_nonneg_iff)
  then have "p div q < 2 ^ ?b" by (rule below_bits)
  also have "(2::int) ^ ?b \<le> 2 ^ (?b - 24 + 24)"
    by (rule power_increasing) simp_all
  also have "(2::int) ^ (?b - 24 + 24) = 2 ^ (?b - 24) * 2 ^ 24"
    by (simp only: power_add)
  finally have "p div q < 2 ^ (?b - 24) * 2 ^ 24" .
  with assms(2) have "p < q * (2 ^ (?b - 24) * 2 ^ 24)"
    by (rule less_mult_of_div_less)
  then have "p < ?Q * 2 ^ 24" by (simp only: mult.assoc)
  with Q have "p div ?Q < 2 ^ 24"
    by (rule div_less_of_less_mult)
  with rne_le [OF Q, of p] show ?thesis by linarith
qed

text \<open>Rounding leaves a binary32 value as it is, so a sum that is one does not round.\<close>

lemma rne_exact: "0 < q \<Longrightarrow> q dvd p \<Longrightarrow> rne p q = p div q"
  by (auto simp add: rne_def Let_def)

lemma round_units_exact: "2 ^ (bits n - 24) dvd n \<Longrightarrow> round_units n 1 = n"
  by (simp add: round_units_def Let_def rne_exact)

lemma round32_exact: "binary32_units n \<Longrightarrow> round32 n 1 = Finite n"
  unfolding binary32_units_def round32_def
  by (cases "0 < n") (auto simp add: Let_def round_units_exact abs_if split: if_splits)

lemma exact16_plus_sixteenth:
  assumes "exact16 c"
  shows "valof (c + 1 / float32_of_int 16) = valof c + 1 / 16"
proof (cases c)
  case (Finite n)
  with assms have "round32 (n + 2 ^ 145) 1 = Finite (n + 2 ^ 145)"
    by (simp add: exact16_def round32_exact)
  with Finite show ?thesis
    by (simp add: sixteenth plus_float32_def valof_def add_divide_distrib)
next
  case MinusZero
  then show ?thesis
    by (simp add: sixteenth plus_float32_def valof_def)
qed (use assms in \<open>simp_all add: exact16_def\<close>)

lemma exact16_plus_zero:
  assumes "exact16 c"
  shows "valof (c + 0) = valof c"
proof (cases c)
  case (Finite n)
  with assms have "round32 n 1 = Finite n"
    by (simp add: exact16_def round32_exact)
  with Finite show ?thesis
    by (simp add: zero_float32_def plus_float32_def)
next
  case MinusZero
  then show ?thesis
    by (simp add: zero_float32_def plus_float32_def valof_def)
qed (use assms in \<open>simp_all add: exact16_def\<close>)

text \<open>Every coordinate \<open>k/16\<close> of the 16 by 16 atlas grid is added to \<open>1/16\<close> exactly.\<close>

lemma atlas_grid_exact16:
  assumes "0 \<le> k" and "k \<le> 15"
  shows "exact16 (nearest32 k 16)"
proof -
  from assms have "k \<in> {0, 1, 2, 3, 4, 5, 6, 7, 8, 9, 10, 11, 12, 13, 14, 15}"
    by simp arith
  then show ?thesis
    by (elim insertE emptyE) (simp_all add: exact16_def binary32_units_def eval32)
qed

subsection \<open>Faces of the cube\<close>

text \<open>
  C1. For every array of six UV offsets, \<open>createBlockFaces\<close> returns exactly six faces.
  The four vertex positions of each face have their three coordinates in \<open>{0, 1}\<close>; they
  lie in one plane, the coordinate along the axis of the face being 1 on a positive face
  and 0 on a negative one; and they are ordered counter-clockwise seen from outside the
  cube: the four positions are distinct, and at every one of the four corners the cross
  product of the edge that arrives and the edge that leaves, \<open>(v2 - v1) \<times> (v3 - v2)\<close>
  and the three that follow it round the face, is the outward unit normal of the face's
  direction.
\<close>

theorem createBlockFaces_geometry:
  "length (elems (createBlockFaces uvOffsets)) = 6 \<and>
   (\<forall>f \<in> set (elems (createBlockFaces uvOffsets)).
      (\<forall>v \<in> set (vertices f).
         unit_coords (pos v) \<and>
         axis_coord (direction f) (pos v) = plane_coord (direction f)) \<and>
      distinct (map pos (vertices f)) \<and>
      turn (vtx1 f) (vtx2 f) (vtx3 f) = xyz (outward_normal (direction f)) \<and>
      turn (vtx2 f) (vtx3 f) (vtx4 f) = xyz (outward_normal (direction f)) \<and>
      turn (vtx3 f) (vtx4 f) (vtx1 f) = xyz (outward_normal (direction f)) \<and>
      turn (vtx4 f) (vtx1 f) (vtx2 f) = xyz (outward_normal (direction f)))"
  by (simp add: createBlockFaces_def Let_def vertices_def unit_coords_def
        turn_def xyz_def sub3_def cross_def)

theorem createBlockFaces_geometry_witness:
  "at6 (createBlockFaces sample_uv) 2 \<in> set (elems (createBlockFaces sample_uv)) \<and>
   direction (at6 (createBlockFaces sample_uv) 2) = YPOS \<and>
   vtx4 (at6 (createBlockFaces sample_uv) 2)
     \<in> set (vertices (at6 (createBlockFaces sample_uv) 2)) \<and>
   map pos (vertices (at6 (createBlockFaces sample_uv) 2))
     = [vec4 0 1 1 1, vec4 1 1 1 1, vec4 1 1 0 1, vec4 0 1 0 1] \<and>
   unit_coords (pos (vtx4 (at6 (createBlockFaces sample_uv) 2))) \<and>
   axis_coord YPOS (pos (vtx4 (at6 (createBlockFaces sample_uv) 2))) = 1 \<and>
   turn (vtx1 (at6 (createBlockFaces sample_uv) 2))
        (vtx2 (at6 (createBlockFaces sample_uv) 2))
        (vtx3 (at6 (createBlockFaces sample_uv) 2)) = vec3 0 1 0 \<and>
   turn (vtx2 (at6 (createBlockFaces sample_uv) 2))
        (vtx3 (at6 (createBlockFaces sample_uv) 2))
        (vtx4 (at6 (createBlockFaces sample_uv) 2)) = vec3 0 1 0 \<and>
   turn (vtx3 (at6 (createBlockFaces sample_uv) 2))
        (vtx4 (at6 (createBlockFaces sample_uv) 2))
        (vtx1 (at6 (createBlockFaces sample_uv) 2)) = vec3 0 1 0 \<and>
   turn (vtx4 (at6 (createBlockFaces sample_uv) 2))
        (vtx1 (at6 (createBlockFaces sample_uv) 2))
        (vtx2 (at6 (createBlockFaces sample_uv) 2)) = vec3 0 1 0"
  using createBlockFaces_geometry [of sample_uv]
  by (simp add: createBlockFaces_def Let_def at6_def vertices_def unit_coords_def
        turn_def xyz_def sub3_def cross_def)

text \<open>
  C2. For every block type \<open>t\<close> and every array \<open>uvs\<close> of six UV offsets, after
  \<open>insertNewUVCoord t uvs\<close> the registry maps \<open>t\<close> to the six faces of
  \<open>createBlockFaces uvs\<close>, one face for each direction, in the order XPOS, XNEG, YPOS,
  YNEG, ZPOS, ZNEG.
\<close>

theorem insertNewUVCoord_registers:
  "BlockCollection (insertNewUVCoord t uvs s) t = Some (createBlockFaces uvs) \<and>
   map direction (elems (createBlockFaces uvs)) = [XPOS, XNEG, YPOS, YNEG, ZPOS, ZNEG]"
  by (simp add: insertNewUVCoord_def createBlockFaces_directions)

text \<open>
  Where the two components of an offset are added to \<open>1/16\<close> exactly, the binary32 sums
  are the sums of the real numbers.
\<close>

lemma exact16_sums:
  assumes "exact16 (vec2_x a)" and "exact16 (vec2_y a)"
  shows "val2 (a + vec2 (1 / float32_of_int 16) 0) = offset_by a (1 / 16) 0"
    and "val2 (a + vec2 (1 / float32_of_int 16) (1 / float32_of_int 16))
          = offset_by a (1 / 16) (1 / 16)"
    and "val2 (a + vec2 0 (1 / float32_of_int 16)) = offset_by a 0 (1 / 16)"
  using assms
  by (simp_all add: val2_def offset_by_def plus_vec2_def exact16_plus_sixteenth
        exact16_plus_zero)

text \<open>
  At the offset \<open>(2^24, 2^24)\<close> the four UV coordinates of a face are one and the same:
  the sixteenth is absorbed by the rounding.
\<close>

lemma far_plus_zero: "float32_of_int 16777216 + 0 = float32_of_int 16777216"
  by (simp add: eval32)

lemma createBlockFaces_uv_absorbed:
  "uv (vtx2 (at6 (createBlockFaces far_uv) 0)) = uv (vtx1 (at6 (createBlockFaces far_uv) 0)) \<and>
   uv (vtx3 (at6 (createBlockFaces far_uv) 0)) = uv (vtx1 (at6 (createBlockFaces far_uv) 0)) \<and>
   uv (vtx4 (at6 (createBlockFaces far_uv) 0)) = uv (vtx1 (at6 (createBlockFaces far_uv) 0))"
  by (simp add: createBlockFaces_def far_uv_def at6_def plus_vec2_def Let_def
        far_plus_sixteenth far_plus_zero)

text \<open>
  C3, as the specification states it: the four UV coordinates of face \<open>i\<close> are exactly
  \<open>uvOffsets[i]\<close> plus \<open>(0, 0)\<close>, \<open>(1/16, 0)\<close>, \<open>(1/16, 1/16)\<close> and \<open>(0, 1/16)\<close>. This fails
  at the offset \<open>(0.1f, 0.1f)\<close>: the sum \<open>0.1f + 1/16\<close> is \<open>21810381 / 2^27\<close>, which has 25
  significant bits, and the second vertex of the first face gets \<open>5452595 / 2^25\<close>.
\<close>

theorem createBlockFaces_uv_not_exact:
  "val2 (uv (vtx2 (at6 (createBlockFaces tenth_uv) 0)))
     = (5452595 / 33554432, 13421773 / 134217728) \<and>
   offset_by (at6 tenth_uv 0) (1 / 16) 0 = (21810381 / 134217728, 13421773 / 134217728) \<and>
   val2 (uv (vtx2 (at6 (createBlockFaces tenth_uv) 0))) \<noteq> offset_by (at6 tenth_uv 0) (1 / 16) 0"
proof -
  have offset: "at6 tenth_uv 0 = vec2 (nearest32 1 10) (nearest32 1 10)"
    by (simp add: tenth_uv_def at6_def Let_def)
  have stored: "uv (vtx2 (at6 (createBlockFaces tenth_uv) 0))
      = vec2 (Finite (5452595 * 2 ^ 124)) (nearest32 1 10)"
    by (simp add: createBlockFaces_def tenth_uv_def at6_def plus_vec2_def Let_def
          tenth_plus_sixteenth tenth_plus_zero)
  show ?thesis
    by (simp add: offset stored val2_def offset_by_def valof_def tenth)
qed

text \<open>
  C3, amended. For every array \<open>uvOffsets\<close> and every face index \<open>i\<close> (the directions in
  the order XPOS, XNEG, YPOS, YNEG, ZPOS, ZNEG), the UV coordinates of the four vertices
  of face \<open>i\<close> are, in this order, \<open>uvOffsets[i]\<close> itself and the binary32 sums of
  \<open>uvOffsets[i]\<close> and \<open>(1/16, 0)\<close>, \<open>(1/16, 1/16)\<close> and \<open>(0, 1/16)\<close>, each component the
  exact sum rounded to the nearest binary32 value. Where both components of
  \<open>uvOffsets[i]\<close> are finite and are added to \<open>1/16\<close> without rounding, as every
  coordinate of the 16 by 16 atlas grid is, the four coordinates are exactly
  \<open>uvOffsets[i]\<close> plus \<open>(0, 0)\<close>, \<open>(1/16, 0)\<close>, \<open>(1/16, 1/16)\<close> and \<open>(0, 1/16)\<close> as real
  numbers: the offset selects an axis-aligned square of side 1/16 of the atlas.
\<close>

theorem createBlockFaces_uv:
  assumes "i < 6"
  shows
   "direction (at6 (createBlockFaces uvOffsets) i) = [XPOS, XNEG, YPOS, YNEG, ZPOS, ZNEG] ! i \<and>
    uv (vtx1 (at6 (createBlockFaces uvOffsets) i)) = at6 uvOffsets i \<and>
    uv (vtx2 (at6 (createBlockFaces uvOffsets) i))
      = at6 uvOffsets i + vec2 (1 / float32_of_int 16) 0 \<and>
    uv (vtx3 (at6 (createBlockFaces uvOffsets) i))
      = at6 uvOffsets i + vec2 (1 / float32_of_int 16) (1 / float32_of_int 16) \<and>
    uv (vtx4 (at6 (createBlockFaces uvOffsets) i))
      = at6 uvOffsets i + vec2 0 (1 / float32_of_int 16) \<and>
    (exact16 (vec2_x (at6 uvOffsets i)) \<and> exact16 (vec2_y (at6 uvOffsets i)) \<longrightarrow>
      val2 (uv (vtx1 (at6 (createBlockFaces uvOffsets) i))) = offset_by (at6 uvOffsets i) 0 0 \<and>
      val2 (uv (vtx2 (at6 (createBlockFaces uvOffsets) i)))
        = offset_by (at6 uvOffsets i) (1 / 16) 0 \<and>
      val2 (uv (vtx3 (at6 (createBlockFaces uvOffsets) i)))
        = offset_by (at6 uvOffsets i) (1 / 16) (1 / 16) \<and>
      val2 (uv (vtx4 (at6 (createBlockFaces uvOffsets) i)))
        = offset_by (at6 uvOffsets i) 0 (1 / 16))"
proof -
  have stored:
    "direction (at6 (createBlockFaces uvOffsets) i) = [XPOS, XNEG, YPOS, YNEG, ZPOS, ZNEG] ! i \<and>
     uv (vtx1 (at6 (createBlockFaces uvOffsets) i)) = at6 uvOffsets i \<and>
     uv (vtx2 (at6 (createBlockFaces uvOffsets) i))
       = at6 uvOffsets i + vec2 (1 / float32_of_int 16) 0 \<and>
     uv (vtx3 (at6 (createBlockFaces uvOffsets) i))
       = at6 uvOffsets i + vec2 (1 / float32_of_int 16) (1 / float32_of_int 16) \<and>
     uv (vtx4 (at6 (createBlockFaces uvOffsets) i))
       = at6 uvOffsets i + vec2 0 (1 / float32_of_int 16)"
    using index_below_6 [OF assms]
    by (elim disjE) (simp_all add: createBlockFaces_def Let_def at6_def)
  have first: "val2 (at6 uvOffsets i) = offset_by (at6 uvOffsets i) 0 0"
    by (simp add: val2_def offset_by_def)
  from stored first show ?thesis
    by (simp add: exact16_sums)
qed

theorem createBlockFaces_uv_witness:
  "(4::nat) < 6 \<and>
   exact16 (vec2_x (at6 sample_uv 4)) \<and> exact16 (vec2_y (at6 sample_uv 4)) \<and>
   direction (at6 (createBlockFaces sample_uv) 4) = ZPOS \<and>
   val2 (at6 sample_uv 4) = (4 / 16, 2 / 16) \<and>
   val2 (uv (vtx1 (at6 (createBlockFaces sample_uv) 4))) = (4 / 16, 2 / 16) \<and>
   val2 (uv (vtx2 (at6 (createBlockFaces sample_uv) 4))) = (5 / 16, 2 / 16) \<and>
   val2 (uv (vtx3 (at6 (createBlockFaces sample_uv) 4))) = (5 / 16, 3 / 16) \<and>
   val2 (uv (vtx4 (at6 (createBlockFaces sample_uv) 4))) = (4 / 16, 3 / 16)"
proof -
  have grid: "exact16 (vec2_x (at6 sample_uv 4)) \<and> exact16 (vec2_y (at6 sample_uv 4))"
    by (simp add: sample_uv_def at6_def atlas_grid_exact16)
  have offset: "at6 sample_uv 4 = vec2 (nearest32 4 16) (nearest32 2 16)"
    by (simp add: sample_uv_def at6_def)
  have here: "val2 (at6 sample_uv 4) = (4 / 16, 2 / 16)"
    unfolding offset by (simp add: val2_def valof_def eval32)
  have moved: "offset_by (at6 sample_uv 4) du dv = (4 / 16 + du, 2 / 16 + dv)" for du dv
    using here by (simp add: val2_def offset_by_def)
  from grid createBlockFaces_uv [of 4 sample_uv] show ?thesis
    by (auto simp add: here moved)
qed

text \<open>
  C4. For every array of UV offsets, each face of \<open>createBlockFaces\<close> carries as its
  normal the outward unit axis vector of its direction tag: \<open>(1,0,0,0)\<close> for XPOS,
  \<open>(-1,0,0,0)\<close> for XNEG, \<open>(0,1,0,0)\<close> for YPOS, \<open>(0,-1,0,0)\<close> for YNEG, \<open>(0,0,1,0)\<close> for
  ZPOS and \<open>(0,0,-1,0)\<close> for ZNEG.
\<close>

theorem createBlockFaces_normals:
  "map (\<lambda>f. (direction f, normal f)) (elems (createBlockFaces uvOffsets)) =
    [(XPOS, vec4 1 0 0 0), (XNEG, vec4 (- 1) 0 0 0),
     (YPOS, vec4 0 1 0 0), (YNEG, vec4 0 (- 1) 0 0),
     (ZPOS, vec4 0 0 1 0), (ZNEG, vec4 0 0 (- 1) 0)]"
  by (simp add: createBlockFaces_def Let_def)

subsection \<open>Classification of block types\<close>

text \<open>
  C5. For every block type \<open>t\<close>: \<open>isTransparent t\<close> is true exactly when \<open>t\<close> is EMPTY,
  WATER or ICE; \<open>isAnimatable t\<close> is true exactly when \<open>t\<close> is WATER or LAVA; and
  \<open>isLiquid t\<close> is true exactly when \<open>t\<close> is WATER or LAVA. This holds in the initial
  registry and after any sequence of insertions.
\<close>

theorem block_classification:
  "isTransparent (insertAll calls (Block_init bc)) t = (t = EMPTY \<or> t = WATER \<or> t = ICE) \<and>
   isAnimatable (insertAll calls (Block_init bc)) t = (t = WATER \<or> t = LAVA) \<and>
   isLiquid (insertAll calls (Block_init bc)) t = (t = WATER \<or> t = LAVA)"
  by (auto simp add: isTransparent_def isAnimatable_def isLiquid_def insertAll_sets
        Block_init_def)

text \<open>
  C8. For every block type \<open>t\<close>, \<open>isOpaque t\<close> is the negation of \<open>isTransparent t\<close>:
  every block type is exactly one of opaque and transparent. This holds whatever the
  registry contains.
\<close>

theorem isOpaque_not_isTransparent:
  "isOpaque s t = (\<not> isTransparent s t)"
  by (simp add: isOpaque_def isTransparent_def)

text \<open>
  C9. For every block type \<open>t\<close>, \<open>isAnimatable t\<close> equals \<open>isLiquid t\<close>: the set of
  animatable block types and the set of liquid block types coincide, both being
  \<open>{WATER, LAVA}\<close>, in the initial registry and after any sequence of insertions.
\<close>

theorem isAnimatable_eq_isLiquid:
  "isAnimatable (insertAll calls (Block_init bc)) t
     = isLiquid (insertAll calls (Block_init bc)) t \<and>
   animatableBlockTypes (insertAll calls (Block_init bc)) = {WATER, LAVA} \<and>
   liquidBlockTypes (insertAll calls (Block_init bc)) = {WATER, LAVA}"
  by (simp add: isAnimatable_def isLiquid_def insertAll_sets Block_init_def)

text \<open>
  C10. For every block type \<open>t\<close>, \<open>getAnimatableFlag t\<close> is the vector \<open>(1, 1)\<close> when
  \<open>isAnimatable t\<close> is true and \<open>(-1, -1)\<close> otherwise; it has no other value.
\<close>

theorem getAnimatableFlag_values:
  "getAnimatableFlag s t = (if isAnimatable s t then vec2 1 1 else vec2 (- 1) (- 1)) \<and>
   getAnimatableFlag s t \<in> {vec2 1 1, vec2 (- 1) (- 1)}"
  by (simp add: getAnimatableFlag_def vec2s_def)

subsection \<open>Frame of an insertion\<close>

text \<open>
  C6. For every block type \<open>t\<close> and UV array \<open>uvs\<close>, \<open>insertNewUVCoord t uvs\<close> changes
  only the \<open>BlockCollection\<close> entry of \<open>t\<close>: the entries of every other block type and
  the three sets \<open>transparentBlockTypes\<close>, \<open>animatableBlockTypes\<close> and
  \<open>liquidBlockTypes\<close> are as before (and so is \<open>blockTypeMap\<close>).
\<close>

theorem insertNewUVCoord_frame:
  "(\<forall>t'. t' \<noteq> t \<longrightarrow>
      BlockCollection (insertNewUVCoord t uvs s) t' = BlockCollection s t') \<and>
   transparentBlockTypes (insertNewUVCoord t uvs s) = transparentBlockTypes s \<and>
   animatableBlockTypes (insertNewUVCoord t uvs s) = animatableBlockTypes s \<and>
   liquidBlockTypes (insertNewUVCoord t uvs s) = liquidBlockTypes s \<and>
   blockTypeMap (insertNewUVCoord t uvs s) = blockTypeMap s"
  by (simp add: insertNewUVCoord_def)

theorem insertNewUVCoord_frame_witness:
  "DIRT \<noteq> GRASS \<and>
   BlockCollection (insertNewUVCoord GRASS (Array6 (vec2s 0) (vec2s 0) (vec2s 0)
      (vec2s 0) (vec2s 0) (vec2s 0)) sample_registry) DIRT = Some (createBlockFaces sample_uv) \<and>
   BlockCollection sample_registry DIRT = Some (createBlockFaces sample_uv) \<and>
   transparentBlockTypes (insertNewUVCoord GRASS (Array6 (vec2s 0) (vec2s 0) (vec2s 0)
      (vec2s 0) (vec2s 0) (vec2s 0)) sample_registry) = {EMPTY, WATER, ICE}"
  using insertNewUVCoord_frame [of GRASS
      "Array6 (vec2s 0) (vec2s 0) (vec2s 0) (vec2s 0) (vec2s 0) (vec2s 0)" sample_registry]
  by (simp add: sample_registry_def insertNewUVCoord_def Block_init_def)

end
